theory Spec2Isabelle
  imports Complex_Main "HOL-Library.Sublist"
begin

section \<open>Python values shared by the three modules\<close>

text \<open>
  Exceptions are values. Only the classes the source raises, catches or lets
  escape are told apart; every other subclass of \<open>Exception\<close> is
  \<open>OtherError\<close>. \<open>str e\<close> is Python's \<open>str(e)\<close>, the message.
\<close>

datatype exc_class = ValueError | TypeError | IndexError | OtherError

datatype py_exception = Exception exc_class string

fun exc_kind :: "py_exception \<Rightarrow> exc_class" where
  "exc_kind (Exception k m) = k"

fun str :: "py_exception \<Rightarrow> string" where
  "str (Exception k m) = m"

text \<open>
  A computation that may raise returns \<open>py_exception + 'a\<close>, \<open>Inl\<close> being the
  raised exception; \<open>bind\<close> is sequencing: the first raise ends the block.
\<close>

definition bind :: "py_exception + 'a \<Rightarrow> ('a \<Rightarrow> py_exception + 'b) \<Rightarrow> py_exception + 'b" where
  "bind m f = (case m of Inl e \<Rightarrow> Inl e | Inr x \<Rightarrow> f x)"

text \<open>
  Everything the program does to the outside world is recorded, in order, as
  an event: a log record, a request to the generative model, a blocking
  \<open>time.sleep\<close>, the two calls that configure the \<open>genai\<close> module, and a
  call of the progress callback.
\<close>

datatype level = INFO | WARNING | ERROR

datatype event =
    Log level string
  | Request string
  | Sleep int
  | Configure string
  | GenerativeModel string
  | Progress nat nat

section \<open>Scraper.py: \<open>StockScraper.technical_analysis\<close>\<close>

subsection \<open>Floats, columns and the two libraries\<close>

text \<open>
  A cell of a price column is a binary64 number or NaN. A finite binary64
  number is a rational, and comparing two of them is exact, so the
  comparisons of the source are modelled on \<open>rat\<close>. Every comparison with
  NaN is false, as in IEEE 754.
\<close>

datatype pyfloat = NaN | Num rat

type_synonym series = "pyfloat list"

fun gt :: "pyfloat \<Rightarrow> pyfloat \<Rightarrow> bool" where
  "gt (Num a) (Num b) = (b < a)"
| "gt _ _ = False"

fun lt :: "pyfloat \<Rightarrow> pyfloat \<Rightarrow> bool" where
  "lt (Num a) (Num b) = (a < b)"
| "lt _ _ = False"

text \<open>
  The frame \<open>yf.download\<close> returns is read through its \<open>Close\<close> column only.
  \<open>df.empty\<close> holds when the frame has no rows.
\<close>

record dataframe =
  Close :: series

definition empty :: "dataframe \<Rightarrow> bool" where
  "empty df = (Close df = [])"

text \<open>
  \<open>df[name] = s\<close> aligns the assigned series with the frame's index: the
  stored column has exactly one cell per row of the frame, NaN where \<open>s\<close>
  has none. \<open>.iloc[-1]\<close> is the last cell and raises IndexError on a column
  without cells.
\<close>

definition df_assign :: "dataframe \<Rightarrow> series \<Rightarrow> series" where
  "df_assign df s =
     take (length (Close df)) s @ replicate (length (Close df) - length s) NaN"

definition iloc_last :: "series \<Rightarrow> py_exception + pyfloat" where
  "iloc_last s =
     (case s of
        [] \<Rightarrow> Inl (Exception IndexError ''single positional indexer is out-of-bounds'')
      | _ # _ \<Rightarrow> Inr (last s))"

text \<open>
  The arithmetic of pandas, of the \<open>ta\<close> package and of Python's \<open>sum\<close> is
  binary64 arithmetic inside those libraries; it is not modelled. The
  libraries are a parameter of the analysis:
  \<^item> \<open>fmean\<close>: the mean pandas computes over a full rolling window;
  \<^item> \<open>fsum\<close>: Python's built-in \<open>sum\<close> over floats;
  \<^item> \<open>rsi w\<close>: \<open>ta.momentum.RSIIndicator(close, window=w).rsi()\<close>;
  \<^item> \<open>macd\<close>, \<open>macd_signal\<close>: the two series of \<open>ta.trend.MACD(close)\<close>;
  \<^item> \<open>bollinger_hband w d\<close>, \<open>bollinger_lband w d\<close>: the bands of
    \<open>ta.volatility.BollingerBands(close, window=w, window_dev=d)\<close>;
  \<^item> \<open>ema_indicator w\<close>: \<open>ta.trend.EMAIndicator(close, window=w).ema_indicator()\<close>.
\<close>

record libs =
  fmean :: "rat list \<Rightarrow> rat"
  fsum :: "rat list \<Rightarrow> rat"
  rsi :: "nat \<Rightarrow> series \<Rightarrow> series"
  macd :: "series \<Rightarrow> series"
  macd_signal :: "series \<Rightarrow> series"
  bollinger_hband :: "nat \<Rightarrow> nat \<Rightarrow> series \<Rightarrow> series"
  bollinger_lband :: "nat \<Rightarrow> nat \<Rightarrow> series \<Rightarrow> series"
  ema_indicator :: "nat \<Rightarrow> series \<Rightarrow> series"

text \<open>
  What is modelled of pandas is when a rolling mean is defined.
  \<open>s.rolling(window=w).mean()\<close> has one cell per cell of \<open>s\<close>; the cell at
  position \<open>i\<close> looks at the last \<open>w\<close> cells up to \<open>i\<close> (fewer near the
  start) and is NaN unless \<open>w\<close> of them are numbers (\<open>min_periods\<close> defaults
  to the window).
\<close>

fun observations :: "series \<Rightarrow> rat list" where
  "observations [] = []"
| "observations (NaN # xs) = observations xs"
| "observations (Num a # xs) = a # observations xs"

definition window_at :: "nat \<Rightarrow> series \<Rightarrow> nat \<Rightarrow> series" where
  "window_at w s i = drop (Suc i - w) (take (Suc i) s)"

definition rolling_mean :: "libs \<Rightarrow> nat \<Rightarrow> series \<Rightarrow> series" where
  "rolling_mean lib w s =
     map (\<lambda>i. let obs = observations (window_at w s i)
              in if length obs < w then NaN else Num (fmean lib obs))
         [0 ..< length s]"

subsection \<open>The five votes (lines 55 to 89)\<close>

definition sma_signal :: "libs \<Rightarrow> dataframe \<Rightarrow> py_exception + int" where
  "sma_signal lib df =
     (let SMA_50 = df_assign df (rolling_mean lib 50 (Close df));
          SMA_100 = df_assign df (rolling_mean lib 100 (Close df))
      in bind (iloc_last SMA_50) (\<lambda>a.
         bind (iloc_last SMA_100) (\<lambda>b.
         Inr (if gt a b then 1 else - 1))))"

definition rsi_signal :: "libs \<Rightarrow> dataframe \<Rightarrow> py_exception + int" where
  "rsi_signal lib df =
     (let RSI = df_assign df (rsi lib 14 (Close df))
      in bind (iloc_last RSI) (\<lambda>r.
         if gt r (Num 70) then Inr (- 1)
         else bind (iloc_last RSI) (\<lambda>r'.
              if lt r' (Num 30) then Inr 1 else Inr 0)))"

definition macd_vote :: "libs \<Rightarrow> dataframe \<Rightarrow> py_exception + int" where
  "macd_vote lib df =
     (let MACD_line = df_assign df (macd lib (Close df));
          MACD_signal = df_assign df (macd_signal lib (Close df))
      in bind (iloc_last MACD_line) (\<lambda>a.
         bind (iloc_last MACD_signal) (\<lambda>b.
         Inr (if gt a b then 1 else - 1))))"

definition bb_signal :: "libs \<Rightarrow> dataframe \<Rightarrow> py_exception + int" where
  "bb_signal lib df =
     (let BB_upper = df_assign df (bollinger_hband lib 20 2 (Close df));
          BB_lower = df_assign df (bollinger_lband lib 20 2 (Close df))
      in bind (iloc_last (Close df)) (\<lambda>c.
         bind (iloc_last BB_lower) (\<lambda>lo.
         if lt c lo then Inr 1
         else bind (iloc_last (Close df)) (\<lambda>c'.
              bind (iloc_last BB_upper) (\<lambda>hi.
              if gt c' hi then Inr (- 1) else Inr 0)))))"

definition ema_signal :: "libs \<Rightarrow> dataframe \<Rightarrow> py_exception + int" where
  "ema_signal lib df =
     (let EMA_20 = df_assign df (ema_indicator lib 20 (Close df));
          EMA_50 = df_assign df (ema_indicator lib 50 (Close df))
      in bind (iloc_last EMA_20) (\<lambda>a.
         bind (iloc_last EMA_50) (\<lambda>b.
         Inr (if gt a b then 1 else - 1))))"

subsection \<open>Weighted voting (lines 91 to 99)\<close>

text \<open>
  The literals \<open>0.3\<close>, \<open>0.2\<close> and \<open>0.1\<close> denote the binary64 numbers nearest
  to them, written out here. A vote is \<open>-1\<close>, \<open>0\<close> or \<open>1\<close>, so each product
  \<open>s * w\<close> is exact; the accumulation is \<open>fsum\<close>.
\<close>

definition weights :: "rat list" where
  "weights =
     [5404319552844595 / 2 ^ 54, 3602879701896397 / 2 ^ 54, 3602879701896397 / 2 ^ 54,
      3602879701896397 / 2 ^ 54, 3602879701896397 / 2 ^ 55]"

definition weighted_signals :: "libs \<Rightarrow> int list \<Rightarrow> rat" where
  "weighted_signals lib signals =
     fsum lib (map (\<lambda>(s, w). of_int s * w) (zip signals weights))"

definition decision :: "rat \<Rightarrow> string" where
  "decision score =
     (if score > 1 / 2 then ''Buy''
      else if score < - (1 / 2) then ''Sell''
      else ''Hold'')"

subsection \<open>The operation\<close>

record scraper =
  stock :: string
  exchange :: string

definition technical_analysis ::
  "libs \<Rightarrow> scraper \<Rightarrow> dataframe \<Rightarrow> event list \<Rightarrow> (py_exception + string) \<times> event list" where
  "technical_analysis lib self df tr =
     (let tick = stock self @ ''.NS'' in
      if empty df
      then (Inr ''Data fetch failed. Check the stock symbol.'',
            tr @ [Log ERROR (''Data fetch failed for ticker: '' @ tick)])
      else
        (bind (sma_signal lib df) (\<lambda>v1.
         bind (rsi_signal lib df) (\<lambda>v2.
         bind (macd_vote lib df) (\<lambda>v3.
         bind (bb_signal lib df) (\<lambda>v4.
         bind (ema_signal lib df) (\<lambda>v5.
         Inr (decision (weighted_signals lib [v1, v2, v3, v4, v5]))))))),
         tr))"

text \<open>
  A stand-in for the libraries, for running the model on concrete frames:
  exact mean and sum, and indicators that are NaN on every row (what the
  \<open>ta\<close> package yields while its windows are not filled).
\<close>

definition nan_series :: "series \<Rightarrow> series" where
  "nan_series s = map (\<lambda>_. NaN) s"

definition stub_libs :: libs where
  "stub_libs =
     \<lparr> fmean = (\<lambda>xs. sum_list xs / of_nat (length xs)),
       fsum = sum_list,
       rsi = (\<lambda>w. nan_series),
       macd = nan_series,
       macd_signal = nan_series,
       bollinger_hband = (\<lambda>w d. nan_series),
       bollinger_lband = (\<lambda>w d. nan_series),
       ema_indicator = (\<lambda>w. nan_series) \<rparr>"

section \<open>Content.py: \<open>ContentGenerator\<close>\<close>

subsection \<open>The generative model and the clock\<close>

text \<open>
  \<open>self.model.generate_content(prompt)\<close> either raises or returns a response
  object; reading \<open>response.text\<close> either raises (ValueError when the payload
  holds no text) or yields the text. The service is a parameter: its answer
  to a request may depend on the prompt and on how many requests were sent
  before it.
\<close>

datatype response = Response "py_exception + string"

fun response_text :: "response \<Rightarrow> py_exception + string" where
  "response_text (Response t) = t"

datatype outcome = Raised py_exception | Returned response

type_synonym service = "nat \<Rightarrow> string \<Rightarrow> outcome"

fun is_request :: "event \<Rightarrow> bool" where
  "is_request (Request p) = True"
| "is_request _ = False"

definition requests :: "event list \<Rightarrow> nat" where
  "requests tr = length (filter is_request tr)"

definition model_generate_content ::
  "service \<Rightarrow> string \<Rightarrow> event list \<Rightarrow> outcome \<times> event list" where
  "model_generate_content svc prompt tr = (svc (requests tr) prompt, tr @ [Request prompt])"

text \<open>
  \<open>time.sleep(secs)\<close> blocks for at least \<open>secs\<close> and raises ValueError on a
  negative argument.
\<close>

definition sleep :: "int \<Rightarrow> event list \<Rightarrow> (py_exception + unit) \<times> event list" where
  "sleep secs tr =
     (if secs < 0 then (Inl (Exception ValueError ''sleep length must be non-negative''), tr)
      else (Inr (), tr @ [Sleep secs]))"

text \<open>
  The clock of a trace counts the time spent in \<open>time.sleep\<close> alone, a lower
  bound of the wall-clock time; \<open>request_times_from t tr\<close> lists the clock
  reading at each request of \<open>tr\<close>, the clock starting at \<open>t\<close>.
\<close>

fun request_times_from :: "int \<Rightarrow> event list \<Rightarrow> int list" where
  "request_times_from t [] = []"
| "request_times_from t (Request p # es) = t # request_times_from t es"
| "request_times_from t (Sleep n # es) = request_times_from (t + n) es"
| "request_times_from t (e # es) = request_times_from t es"

fun elapsed :: "event list \<Rightarrow> int" where
  "elapsed [] = 0"
| "elapsed (Sleep n # es) = n + elapsed es"
| "elapsed (e # es) = elapsed es"

definition request_times :: "event list \<Rightarrow> int list" where
  "request_times tr = request_times_from 0 tr"

text \<open>Python's \<open>needle in haystack\<close> on strings.\<close>

fun contains :: "string \<Rightarrow> string \<Rightarrow> bool" where
  "contains needle [] = (needle = [])"
| "contains needle (c # cs) = (prefix needle (c # cs) \<or> contains needle cs)"

subsection \<open>Construction (lines 11 to 30)\<close>

record content_generator =
  api_key :: "string option"
  model_name :: string
  request_interval :: int

text \<open>
  \<open>not self.api_key\<close> holds for \<open>None\<close> (what \<open>os.getenv\<close> gives for an unset
  variable) and for the empty string.
\<close>

definition configure_model ::
  "content_generator \<Rightarrow> event list \<Rightarrow> (py_exception + unit) \<times> event list" where
  "configure_model self tr =
     (case api_key self of
        None \<Rightarrow>
          (Inl (Exception ValueError ''API key is required.''),
           tr @ [Log ERROR ''API key is required for ContentGenerator.''])
      | Some k \<Rightarrow>
          if k = [] then
            (Inl (Exception ValueError ''API key is required.''),
             tr @ [Log ERROR ''API key is required for ContentGenerator.''])
          else (Inr (), tr @ [Configure k, GenerativeModel (model_name self)]))"

text \<open>
  \<open>__init__\<close>: an argument left out is \<open>None\<close> here and takes the default of
  the signature.
\<close>

definition init ::
  "string option \<Rightarrow> string option \<Rightarrow> int option \<Rightarrow> event list
     \<Rightarrow> (py_exception + content_generator) \<times> event list" where
  "init key name interval tr =
     (let self = \<lparr> api_key = key,
                   model_name = (case name of None \<Rightarrow> ''gemini-1.5-pro'' | Some n \<Rightarrow> n),
                   request_interval = (case interval of None \<Rightarrow> 40 | Some i \<Rightarrow> i) \<rparr>
      in case configure_model self tr of
           (Inl e, tr') \<Rightarrow> (Inl e, tr')
         | (Inr u, tr') \<Rightarrow> (Inr self, tr'))"

subsection \<open>\<open>generate_content\<close> (lines 32 to 64)\<close>

text \<open>
  The result is \<open>Inr (Some text)\<close> for the generated text, \<open>Inr None\<close> for the
  \<open>None\<close> the method returns on failure, and \<open>Inl e\<close> for an exception that
  leaves the method. \<open>after_response\<close> is lines 56 to 64, reached from the
  first request and from the retry.
\<close>

definition after_response ::
  "content_generator \<Rightarrow> response \<Rightarrow> event list
     \<Rightarrow> (py_exception + string option) \<times> event list" where
  "after_response self resp tr =
     (case sleep (request_interval self) (tr @ [Log INFO ''Generated content successfully.'']) of
        (Inl e, tr') \<Rightarrow> (Inl e, tr')
      | (Inr u, tr') \<Rightarrow>
          (case response_text resp of
             Inr t \<Rightarrow> (Inr (Some t), tr')
           | Inl ve \<Rightarrow>
               if exc_kind ve = ValueError
               then (Inr None, tr' @ [Log ERROR (''ValueError parsing text: '' @ str ve)])
               else (Inl ve, tr')))"

definition generate_content ::
  "content_generator \<Rightarrow> service \<Rightarrow> string \<Rightarrow> event list
     \<Rightarrow> (py_exception + string option) \<times> event list" where
  "generate_content self svc prompt tr =
     (case model_generate_content svc prompt
             (tr @ [Log INFO ''Sending prompt to the generative model.'']) of
        (Returned resp, tr1) \<Rightarrow> after_response self resp tr1
      | (Raised e, tr1) \<Rightarrow>
          (let excpt = str e in
           if contains ''500'' excpt \<or> contains ''503'' excpt then
             (case sleep 60
                     (tr1 @ [Log WARNING
                       (''Error 500/503 encountered, retrying in 1 minute: '' @ excpt)]) of
                (Inl se, tr2) \<Rightarrow> (Inl se, tr2)
              | (Inr u, tr2) \<Rightarrow>
                  (case model_generate_content svc prompt tr2 of
                     (Returned resp, tr3) \<Rightarrow> after_response self resp tr3
                   | (Raised retry_e, tr3) \<Rightarrow>
                       (Inr None, tr3 @ [Log ERROR (''Retry failed: '' @ str retry_e)])))
           else (Inr None, tr1 @ [Log ERROR (''Error generating content: '' @ str e)])))"

text \<open>
  A service that answers its first requests as scripted and refuses every
  later one, for running the model on concrete inputs.
\<close>

definition scripted :: "outcome list \<Rightarrow> service" where
  "scripted answers k prompt =
     (if k < length answers then answers ! k
      else Raised (Exception OtherError ''connection refused''))"

text \<open>
  Sample values: a generator as the pipeline builds it, two errors of the
  service (one with a transient signature, one without) and a response
  without text.
\<close>

definition sample_generator :: content_generator where
  "sample_generator =
     \<lparr> api_key = Some ''secret'', model_name = ''gemini-1.5-pro'', request_interval = 40 \<rparr>"

definition err_503 :: py_exception where
  "err_503 = Exception OtherError ''503 Service Unavailable''"

definition err_404 :: py_exception where
  "err_404 = Exception OtherError ''404 Not Found''"

definition no_text :: response where
  "no_text = Response (Inl (Exception ValueError ''response has no valid part''))"

section \<open>Analysis.py: \<open>StockAnalysisPipeline.run_pipeline\<close>\<close>

text \<open>
  The pipeline acts on the event trace and on the files of the working
  directory, a map from path to content. \<open>open(path, "w")\<close> creates the file
  or empties an existing one; \<open>f.write(x)\<close> appends a string and raises
  TypeError when \<open>x\<close> is \<open>None\<close>; leaving the \<open>with\<close> block closes the file
  and lets the exception pass.
\<close>

record world =
  trace :: "event list"
  files :: "string \<rightharpoonup> string"

definition logger :: "level \<Rightarrow> string \<Rightarrow> world \<Rightarrow> world" where
  "logger l m w = w\<lparr>trace := trace w @ [Log l m]\<rparr>"

definition file_open :: "string \<Rightarrow> world \<Rightarrow> world" where
  "file_open path w = w\<lparr>files := (files w)(path \<mapsto> [])\<rparr>"

definition file_write :: "string \<Rightarrow> string option \<Rightarrow> world \<Rightarrow> (py_exception + unit) \<times> world" where
  "file_write path x w =
     (case x of
        None \<Rightarrow> (Inl (Exception TypeError ''write() argument must be str, not None''), w)
      | Some s \<Rightarrow>
          (Inr (),
           w\<lparr>files := (files w)(path \<mapsto> (case files w path of None \<Rightarrow> [] | Some c \<Rightarrow> c) @ s)\<rparr>))"

text \<open>
  The optional progress callback is modelled by whether one was passed; a
  call of it is an event.
\<close>

definition progress :: "bool \<Rightarrow> nat \<Rightarrow> nat \<Rightarrow> world \<Rightarrow> world" where
  "progress progress_callback i n w =
     (if progress_callback then w\<lparr>trace := trace w @ [Progress i n]\<rparr> else w)"

text \<open>
  \<open>get_stock_properties\<close> scrapes the web; its result, a dictionary, is an
  input of the run: the keys in insertion order, each with the text
  \<open>repr\<close> gives for its value. \<open>dict_str\<close> is \<open>str\<close> of that dictionary.
\<close>

type_synonym stock_data = "(string \<times> string) list"

definition quote :: string where
  "quote = [CHR 0x27]"

definition newline :: string where
  "newline = [CHR 0x0A]"

fun items_str :: "stock_data \<Rightarrow> string" where
  "items_str [] = []"
| "items_str [(k, v)] = quote @ k @ quote @ '': '' @ v"
| "items_str ((k, v) # kvs) = quote @ k @ quote @ '': '' @ v @ '', '' @ items_str kvs"

definition dict_str :: "stock_data \<Rightarrow> string" where
  "dict_str d = ''{'' @ items_str d @ ''}''"

definition prompt_sections :: string where
  "prompt_sections =
     ''Generate an in-depth and actionable stock analysis report covering the following sections:''
     @ newline @ newline @
     ''1. **Company Overview**: Provide a concise description of the company, its industry, and its current stock price, including a brief note on recent performance trends.''
     @ newline @
     ''2. **Key Metrics**: Highlight essential financial metrics (e.g., P/E ratio, Industry P/E ratio, EPS, ROE) and discuss significant observations or anomalies.''
     @ newline @
     ''3. **SWOT Analysis**: Identify and elaborate on the company'' @ quote @ ''s Strengths, Weaknesses, Opportunities, and Threats, emphasizing factors that influence stock performance. Please not consider book value vs stock value.''
     @ newline @
     ''4. **Recent News Highlights**: Summarize key news or events affecting the company, focusing on their potential impact on stock performance.''
     @ newline @
     ''5. **Technical Analysis**: provide a visual rating based on voting given in technical analysis(e.g., in star format).''
     @ newline @
     ''6. **Investment Recommendation**: Offer a clear recommendation (Buy, Sell, or Hold) for the next 3-6 months, supported by both technical and fundamental analysis insights.''
     @ newline @ newline @
     ''Ensure the report is well-structured, jargon-free, and focuses on delivering actionable insights over raw data. Use the provided data as the basis for your analysis:''
     @ newline"

definition make_prompt :: "stock_data \<Rightarrow> string" where
  "make_prompt d = prompt_sections @ ''**Company**: '' @ dict_str d @ newline"

text \<open>\<open>pipeline_stock\<close> is \<open>self.stock\<close>, the upper-cased company symbol.\<close>

record pipeline =
  pipeline_stock :: string
  generator :: content_generator

fun truthy :: "string option \<Rightarrow> bool" where
  "truthy None = False"
| "truthy (Some s) = (s \<noteq> [])"

definition run_pipeline ::
  "service \<Rightarrow> pipeline \<Rightarrow> stock_data \<Rightarrow> bool \<Rightarrow> world \<Rightarrow> (py_exception + unit) \<times> world" where
  "run_pipeline svc self stock_data progress_callback w0 =
     (let w1 = logger INFO ''Starting stock analysis pipeline...'' w0;
          steps = 3
      in
      if ''error'' \<in> set (map fst stock_data)
      then (Inr (), logger ERROR ''Error scraping stock data. Pipeline will stop.'' w1)
      else
        (let w2 = progress progress_callback 1 steps w1;
             prompt = make_prompt stock_data;
             w3 = logger INFO ''Creating prompt for generative model.'' w2
         in
         case generate_content (generator self) svc prompt (trace w3) of
           (Inl e, tr) \<Rightarrow> (Inl e, w3\<lparr>trace := tr\<rparr>)
         | (Inr analysis_result, tr) \<Rightarrow>
             (let w4 = progress progress_callback 2 steps (w3\<lparr>trace := tr\<rparr>);
                  file_path = pipeline_stock self @ ''_analysis.md'';
                  w5 = file_open file_path w4
              in
              case file_write file_path analysis_result w5 of
                (Inl e, w6) \<Rightarrow> (Inl e, w6)
              | (Inr u, w6) \<Rightarrow>
                  (let w7 = progress progress_callback 3 steps w6
                   in (Inr (),
                       if truthy analysis_result
                       then logger INFO ''Analysis successfully generated.'' w7
                       else logger ERROR ''Stock analysis failed to generate content.'' w7)))))"

text \<open>
  Sample values: a pipeline for one symbol, the dictionary of a scrape that
  went well, and a working directory without files.
\<close>

definition sample_pipeline :: pipeline where
  "sample_pipeline = \<lparr> pipeline_stock = ''RELIANCE'', generator = sample_generator \<rparr>"

definition sample_stock_data :: stock_data where
  "sample_stock_data =
     [(''stock_name'', quote @ ''Reliance Industries Ltd'' @ quote),
      (''technical_analysis'', quote @ ''Hold'' @ quote)]"

definition fresh_world :: world where
  "fresh_world = \<lparr> trace = [], files = Map.empty \<rparr>"

section \<open>Properties of the technical analysis\<close>


lemma length_rolling_mean: "length (rolling_mean lib w s) = length s"
  by (simp add: rolling_mean_def)

lemma df_assign_same_length: "length s = length (Close df) \<Longrightarrow> df_assign df s = s"
  by (simp add: df_assign_def)

lemma iloc_last_nonempty: "s \<noteq> [] \<Longrightarrow> iloc_last s = Inr (last s)"
  by (cases s) (simp_all add: iloc_last_def)


lemma length_observations: "length (observations s) \<le> length s"
  by (induction s rule: observations.induct) auto

lemma rolling_mean_last_short:
  assumes "s \<noteq> []" and "length s < w"
  shows "last (rolling_mean lib w s) = NaN"
proof -
  let ?i = "length s - 1"
  have "length (observations (window_at w s ?i)) \<le> length (window_at w s ?i)"
    by (rule length_observations)
  also have "\<dots> \<le> length s"
    by (simp add: window_at_def)
  finally have short: "length (observations (window_at w s ?i)) < w"
    using assms(2) by simp
  have "rolling_mean lib w s \<noteq> []"
    using assms(1) by (simp add: rolling_mean_def)
  then have "last (rolling_mean lib w s) = rolling_mean lib w s ! ?i"
    by (simp add: last_conv_nth length_rolling_mean)
  also have "\<dots> = NaN"
    using assms(1) short by (simp add: rolling_mean_def Let_def)
  finally show ?thesis .
qed

lemma gt_NaN_right: "gt a NaN = False"
  by (cases a) simp_all







text \<open>
  A run of the whole analysis on a frame of two bars, with every \<open>ta\<close>
  indicator still NaN: the votes are \<open>-1, 0, -1, 0, -1\<close> and the label is
  Sell.
\<close>

lemma technical_analysis_two_bars:
  "technical_analysis stub_libs \<lparr>stock = ''RELIANCE'', exchange = ''NSE''\<rparr>
     \<lparr>Close = [Num 100, Num 101]\<rparr> [] = (Inr ''Sell'', [])"
  by (simp add: technical_analysis_def empty_def sma_signal_def rsi_signal_def macd_vote_def
      bb_signal_def ema_signal_def df_assign_def rolling_mean_def window_at_def iloc_last_def
      bind_def Let_def stub_libs_def nan_series_def weighted_signals_def weights_def
      decision_def)

subsection \<open>C1: the SMA-cross vote on a short series\<close>

text \<open>
  C1 says that on a non-empty series of fewer than 100 bars the SMA-cross
  vote is neutral (0) and nothing is raised. On one bar the vote of line 58
  is \<open>-1\<close>: \<open>SMA_100\<close> is NaN there, the comparison \<open>SMA_50 > SMA_100\<close> is
  false, and the conditional expression has no neutral branch.
\<close>

theorem sma_signal_one_bar_counterexample:
  "sma_signal stub_libs \<lparr>Close = [Num 100]\<rparr> = Inr (- 1)
   \<and> sma_signal stub_libs \<lparr>Close = [Num 100]\<rparr> \<noteq> Inr 0"
  by (simp add: sma_signal_def df_assign_def rolling_mean_def window_at_def iloc_last_def
      bind_def Let_def)

text \<open>
  C1 as amended: on every non-empty price series of fewer than 100 bars the
  SMA-cross vote is \<open>-1\<close>, whatever the prices and whatever the libraries
  compute, and no exception is raised.
\<close>

theorem sma_signal_short_series:
  assumes "Close df \<noteq> []" and "length (Close df) < 100"
  shows "sma_signal lib df = Inr (- 1)"
proof -
  have l50: "df_assign df (rolling_mean lib 50 (Close df)) = rolling_mean lib 50 (Close df)"
    by (simp add: df_assign_same_length length_rolling_mean)
  have l100: "df_assign df (rolling_mean lib 100 (Close df)) = rolling_mean lib 100 (Close df)"
    by (simp add: df_assign_same_length length_rolling_mean)
  have ne: "rolling_mean lib w (Close df) \<noteq> []" for w
    using assms(1) by (simp add: rolling_mean_def)
  have nan: "last (rolling_mean lib 100 (Close df)) = NaN"
    using assms by (rule rolling_mean_last_short)
  show ?thesis
    by (simp add: sma_signal_def l50 l100 iloc_last_nonempty [OF ne] nan bind_def gt_NaN_right)
qed

theorem sma_signal_short_series_witness:
  "Close \<lparr>Close = [Num 100, Num 101]\<rparr> \<noteq> []
   \<and> length (Close \<lparr>Close = [Num 100, Num 101]\<rparr>) < 100
   \<and> sma_signal stub_libs \<lparr>Close = [Num 100, Num 101]\<rparr> = Inr (- 1)"
  using sma_signal_short_series [of "\<lparr>Close = [Num 100, Num 101]\<rparr>" stub_libs]
  by simp

subsection \<open>C3: the decision rule\<close>

text \<open>
  C3: the mapping from the weighted score to the label is strict and
  non-overlapping. A score above 0.5 gives Buy, a score below -0.5 gives
  Sell, every other score gives Hold; the scores 0.5 and -0.5 themselves
  give Hold.
\<close>

theorem decision_cases:
  "(1 / 2 < score \<longrightarrow> decision score = ''Buy'')
   \<and> (score < - (1 / 2) \<longrightarrow> decision score = ''Sell'')
   \<and> (\<not> 1 / 2 < score \<and> \<not> score < - (1 / 2) \<longrightarrow> decision score = ''Hold'')
   \<and> decision (1 / 2) = ''Hold''
   \<and> decision (- (1 / 2)) = ''Hold''"
  by (simp add: decision_def)

theorem decision_cases_witness:
  "(1 / 2 < (3 / 5 :: rat) \<and> decision (3 / 5) = ''Buy'')
   \<and> (- (3 / 5) < - (1 / 2 :: rat) \<and> decision (- (3 / 5)) = ''Sell'')
   \<and> (\<not> 1 / 2 < (2 / 5 :: rat) \<and> \<not> 2 / 5 < - (1 / 2 :: rat) \<and> decision (2 / 5) = ''Hold'')"
  using decision_cases [of "3 / 5"] decision_cases [of "- (3 / 5)"] decision_cases [of "2 / 5"]
  by simp

subsection \<open>C8: an empty price series\<close>

text \<open>
  C8: on an empty frame the analysis reports the failed fetch and computes
  nothing. It logs the error and returns the fetch-failure message, which is
  none of the three labels, whatever the indicator libraries would compute.
\<close>

theorem technical_analysis_empty:
  assumes "empty df"
  shows "technical_analysis lib self df tr =
           (Inr ''Data fetch failed. Check the stock symbol.'',
            tr @ [Log ERROR (''Data fetch failed for ticker: '' @ stock self @ ''.NS'')])
         \<and> fst (technical_analysis lib self df tr) \<notin> {Inr ''Buy'', Inr ''Sell'', Inr ''Hold''}"
  using assms by (simp add: technical_analysis_def Let_def)

theorem technical_analysis_empty_witness:
  "empty \<lparr>Close = []\<rparr>
   \<and> technical_analysis stub_libs \<lparr>stock = ''NOSUCH'', exchange = ''NSE''\<rparr> \<lparr>Close = []\<rparr> [] =
       (Inr ''Data fetch failed. Check the stock symbol.'',
        [Log ERROR ''Data fetch failed for ticker: NOSUCH.NS''])"
proof -
  have e: "empty \<lparr>Close = []\<rparr>"
    by (simp add: empty_def)
  show ?thesis
    using e technical_analysis_empty [OF e, of stub_libs
      "\<lparr>stock = ''NOSUCH'', exchange = ''NSE''\<rparr>" "[]"]
    by simp
qed

subsection \<open>C10: a non-empty price series always gets a label\<close>



section \<open>Properties of the content generator\<close>

text \<open>\<open>contains\<close> is the contiguous-sublist relation, as Python's \<open>in\<close> is.\<close>

lemma contains_sublist: "contains needle haystack = sublist needle haystack"
  by (induction haystack) (simp_all add: sublist_Cons_right)

lemma elapsed_append: "elapsed (a @ b) = elapsed a + elapsed b"
  by (induction a rule: elapsed.induct) simp_all

lemma request_times_from_append:
  "request_times_from t (a @ b) = request_times_from t a @ request_times_from (t + elapsed a) b"
  by (induction t a rule: request_times_from.induct) (simp_all add: add.assoc)

lemma generate_content_success_trace:
  assumes "generate_content self svc p tr = (Inr (Some t), tr')"
  shows "0 \<le> request_interval self
         \<and> (\<exists>mid. tr' = tr @ mid @ [Request p, Log INFO ''Generated content successfully.'',
                                   Sleep (request_interval self)]
               \<and> (mid = [Log INFO ''Sending prompt to the generative model.'']
                  \<or> (\<exists>m. mid = [Log INFO ''Sending prompt to the generative model.'',
                                 Request p, Log WARNING m, Sleep 60])))"
  using assms
  by (auto simp add: generate_content_def model_generate_content_def after_response_def
      sleep_def Let_def split: outcome.splits sum.splits if_splits)

lemma request_times_after_success:
  assumes "generate_content self svc p tr = (Inr (Some t), tr')"
  shows "request_times tr' \<noteq> []
         \<and> last (request_times tr') + request_interval self = elapsed tr'"
proof -
  from generate_content_success_trace [OF assms] obtain mid where
    tr': "tr' = (tr @ mid) @ [Request p, Log INFO ''Generated content successfully.'',
                           Sleep (request_interval self)]"
    by auto
  show ?thesis
    unfolding tr' request_times_def
    by (simp only: request_times_from_append elapsed_append) simp
qed

lemma request_times_of_success:
  assumes "generate_content self svc p tr = (Inr (Some t), tr')"
  shows "\<exists>ts. request_times tr' = request_times tr @ ts \<and> ts \<noteq> []
              \<and> (\<forall>t \<in> set ts. elapsed tr \<le> t)"
proof -
  from generate_content_success_trace [OF assms] obtain mid where
    tr': "tr' = tr @ (mid @ [Request p, Log INFO ''Generated content successfully.'',
                           Sleep (request_interval self)])"
    and mid: "mid = [Log INFO ''Sending prompt to the generative model.'']
              \<or> (\<exists>m. mid = [Log INFO ''Sending prompt to the generative model.'',
                             Request p, Log WARNING m, Sleep 60])"
    by auto
  from mid show ?thesis
    unfolding tr' request_times_def
    by (auto simp add: request_times_from_append)
qed

subsection \<open>C2: at most one retry, only after a transient error\<close>

text \<open>
  C2: when the first request fails with an error whose text contains
  \<open>500\<close> or \<open>503\<close>, the client sleeps for 60 and sends exactly one more
  request, the sleep coming before it. When that retry fails too, the call
  ends with the failure value; when it succeeds, its text is returned. When
  the first error has no such signature, the call ends with the failure
  value after that single request, without sleeping. The traces list every
  request the call makes.
\<close>

theorem generate_content_retry_policy:
  "(svc (requests tr) prompt = Raised e
      \<and> (contains ''500'' (str e) \<or> contains ''503'' (str e))
    \<longrightarrow> (\<exists>rest. snd (generate_content self svc prompt tr) =
            tr @ [Log INFO ''Sending prompt to the generative model.'',
                  Request prompt,
                  Log WARNING (''Error 500/503 encountered, retrying in 1 minute: '' @ str e),
                  Sleep 60,
                  Request prompt] @ rest
          \<and> requests rest = 0))
   \<and> (svc (requests tr) prompt = Raised e
      \<and> (contains ''500'' (str e) \<or> contains ''503'' (str e))
      \<and> svc (Suc (requests tr)) prompt = Raised retry_e
    \<longrightarrow> generate_content self svc prompt tr =
          (Inr None,
           tr @ [Log INFO ''Sending prompt to the generative model.'',
                 Request prompt,
                 Log WARNING (''Error 500/503 encountered, retrying in 1 minute: '' @ str e),
                 Sleep 60,
                 Request prompt,
                 Log ERROR (''Retry failed: '' @ str retry_e)]))
   \<and> (svc (requests tr) prompt = Raised e
      \<and> (contains ''500'' (str e) \<or> contains ''503'' (str e))
      \<and> svc (Suc (requests tr)) prompt = Returned (Response (Inr t))
      \<and> 0 \<le> request_interval self
    \<longrightarrow> generate_content self svc prompt tr =
          (Inr (Some t),
           tr @ [Log INFO ''Sending prompt to the generative model.'',
                 Request prompt,
                 Log WARNING (''Error 500/503 encountered, retrying in 1 minute: '' @ str e),
                 Sleep 60,
                 Request prompt,
                 Log INFO ''Generated content successfully.'',
                 Sleep (request_interval self)]))
   \<and> (svc (requests tr) prompt = Raised e
      \<and> \<not> (contains ''500'' (str e) \<or> contains ''503'' (str e))
    \<longrightarrow> generate_content self svc prompt tr =
          (Inr None,
           tr @ [Log INFO ''Sending prompt to the generative model.'',
                 Request prompt,
                 Log ERROR (''Error generating content: '' @ str e)]))"
  by (auto simp add: generate_content_def model_generate_content_def after_response_def
      sleep_def requests_def Let_def split: outcome.splits sum.splits)

theorem generate_content_retry_policy_witness:
  "generate_content sample_generator (scripted [Raised err_503, Raised err_503]) ''p'' [] =
     (Inr None,
      [Log INFO ''Sending prompt to the generative model.'',
       Request ''p'',
       Log WARNING
         ''Error 500/503 encountered, retrying in 1 minute: 503 Service Unavailable'',
       Sleep 60,
       Request ''p'',
       Log ERROR ''Retry failed: 503 Service Unavailable''])
   \<and> generate_content sample_generator
        (scripted [Raised err_503, Returned (Response (Inr ''report''))]) ''p'' [] =
     (Inr (Some ''report''),
      [Log INFO ''Sending prompt to the generative model.'',
       Request ''p'',
       Log WARNING
         ''Error 500/503 encountered, retrying in 1 minute: 503 Service Unavailable'',
       Sleep 60,
       Request ''p'',
       Log INFO ''Generated content successfully.'',
       Sleep 40])
   \<and> generate_content sample_generator (scripted [Raised err_404]) ''p'' [] =
     (Inr None,
      [Log INFO ''Sending prompt to the generative model.'',
       Request ''p'',
       Log ERROR ''Error generating content: 404 Not Found''])"
proof -
  have r0: "requests [] = 0"
    by (simp add: requests_def)
  have t503: "contains ''503'' (str err_503)"
    by (simp add: err_503_def)
  have t404: "\<not> (contains ''500'' (str err_404) \<or> contains ''503'' (str err_404))"
    by (simp add: err_404_def)
  have a: "scripted [Raised err_503, Raised err_503] (requests []) ''p'' = Raised err_503
           \<and> scripted [Raised err_503, Raised err_503] (Suc (requests [])) ''p'' = Raised err_503"
    by (simp add: scripted_def r0)
  have b: "scripted [Raised err_503, Returned (Response (Inr ''report''))] (requests []) ''p''
             = Raised err_503
           \<and> scripted [Raised err_503, Returned (Response (Inr ''report''))]
               (Suc (requests [])) ''p'' = Returned (Response (Inr ''report''))
           \<and> 0 \<le> request_interval sample_generator"
    by (simp add: scripted_def r0 sample_generator_def)
  have c: "scripted [Raised err_404] (requests []) ''p'' = Raised err_404"
    by (simp add: scripted_def r0)
  show ?thesis
    using generate_content_retry_policy
            [of "scripted [Raised err_503, Raised err_503]" "[]" "''p''" err_503
                sample_generator err_503]
          generate_content_retry_policy
            [of "scripted [Raised err_503, Returned (Response (Inr ''report''))]" "[]" "''p''"
                err_503 sample_generator _ "''report''"]
          generate_content_retry_policy
            [of "scripted [Raised err_404]" "[]" "''p''" err_404 sample_generator]
          a b c t503 t404
    by (simp add: err_503_def err_404_def sample_generator_def)
qed

subsection \<open>C5: a response without text\<close>

text \<open>
  C5 says that a response that cannot be read as text is reported as a
  failure of its own kind, which the caller can tell from a service error.
  The caller gets \<open>None\<close> in all three cases: a response without text, a
  permanent service error, and a transient error whose retry fails.
\<close>

theorem parse_failure_same_result_counterexample:
  "fst (generate_content sample_generator (scripted [Returned no_text]) ''p'' []) = Inr None
   \<and> fst (generate_content sample_generator (scripted [Raised err_404]) ''p'' []) = Inr None
   \<and> fst (generate_content sample_generator (scripted [Raised err_503, Raised err_503]) ''p'' [])
       = Inr None"
  by (simp add: generate_content_def model_generate_content_def after_response_def sleep_def
      requests_def scripted_def sample_generator_def no_text_def err_404_def err_503_def
      Let_def)

text \<open>
  C5 as amended: when the request (the first, or the retry) succeeds but
  reading the text of the response raises ValueError, no further request is
  sent, the failure is logged as \<open>ValueError parsing text\<close>, and the method
  returns \<open>None\<close>, the value it also returns for a service error. The
  interval is taken as non-negative, so that the pause itself does not raise.
\<close>

theorem parse_failure_not_retried:
  "(svc (requests tr) prompt = Returned resp
      \<and> response_text resp = Inl ve \<and> exc_kind ve = ValueError
      \<and> 0 \<le> request_interval self
    \<longrightarrow> generate_content self svc prompt tr =
          (Inr None,
           tr @ [Log INFO ''Sending prompt to the generative model.'',
                 Request prompt,
                 Log INFO ''Generated content successfully.'',
                 Sleep (request_interval self),
                 Log ERROR (''ValueError parsing text: '' @ str ve)]))
   \<and> (svc (requests tr) prompt = Raised e
      \<and> (contains ''500'' (str e) \<or> contains ''503'' (str e))
      \<and> svc (Suc (requests tr)) prompt = Returned resp
      \<and> response_text resp = Inl ve \<and> exc_kind ve = ValueError
      \<and> 0 \<le> request_interval self
    \<longrightarrow> generate_content self svc prompt tr =
          (Inr None,
           tr @ [Log INFO ''Sending prompt to the generative model.'',
                 Request prompt,
                 Log WARNING (''Error 500/503 encountered, retrying in 1 minute: '' @ str e),
                 Sleep 60,
                 Request prompt,
                 Log INFO ''Generated content successfully.'',
                 Sleep (request_interval self),
                 Log ERROR (''ValueError parsing text: '' @ str ve)]))
   \<and> (svc (requests tr) prompt = Raised e
      \<and> \<not> (contains ''500'' (str e) \<or> contains ''503'' (str e))
    \<longrightarrow> fst (generate_content self svc prompt tr) = Inr None)"
  by (auto simp add: generate_content_def model_generate_content_def after_response_def
      sleep_def requests_def Let_def split: outcome.splits sum.splits)

theorem parse_failure_not_retried_witness:
  "generate_content sample_generator (scripted [Returned no_text]) ''p'' [] =
     (Inr None,
      [Log INFO ''Sending prompt to the generative model.'',
       Request ''p'',
       Log INFO ''Generated content successfully.'',
       Sleep 40,
       Log ERROR ''ValueError parsing text: response has no valid part''])
   \<and> generate_content sample_generator (scripted [Raised err_503, Returned no_text]) ''p'' [] =
     (Inr None,
      [Log INFO ''Sending prompt to the generative model.'',
       Request ''p'',
       Log WARNING
         ''Error 500/503 encountered, retrying in 1 minute: 503 Service Unavailable'',
       Sleep 60,
       Request ''p'',
       Log INFO ''Generated content successfully.'',
       Sleep 40,
       Log ERROR ''ValueError parsing text: response has no valid part''])
   \<and> fst (generate_content sample_generator (scripted [Raised err_404]) ''p'' []) = Inr None"
proof -
  let ?ve = "Exception ValueError ''response has no valid part''"
  have r0: "requests [] = 0"
    by (simp add: requests_def)
  have t503: "contains ''503'' (str err_503)"
    by (simp add: err_503_def)
  have t404: "\<not> (contains ''500'' (str err_404) \<or> contains ''503'' (str err_404))"
    by (simp add: err_404_def)
  have nt: "response_text no_text = Inl ?ve \<and> exc_kind ?ve = ValueError
            \<and> 0 \<le> request_interval sample_generator"
    by (simp add: no_text_def sample_generator_def)
  have a: "scripted [Returned no_text] (requests []) ''p'' = Returned no_text"
    by (simp add: scripted_def r0)
  have b: "scripted [Raised err_503, Returned no_text] (requests []) ''p'' = Raised err_503
           \<and> scripted [Raised err_503, Returned no_text] (Suc (requests [])) ''p''
               = Returned no_text"
    by (simp add: scripted_def r0)
  have c: "scripted [Raised err_404] (requests []) ''p'' = Raised err_404"
    by (simp add: scripted_def r0)
  show ?thesis
    using parse_failure_not_retried
            [of "scripted [Returned no_text]" "[]" "''p''" no_text ?ve sample_generator]
          parse_failure_not_retried
            [of "scripted [Raised err_503, Returned no_text]" "[]" "''p''" no_text ?ve
                sample_generator err_503]
          parse_failure_not_retried
            [of "scripted [Raised err_404]" "[]" "''p''" _ _ sample_generator err_404]
          a b c nt t503 t404
    by (simp add: err_503_def sample_generator_def)
qed

subsection \<open>C7: the pause after a successful request\<close>

text \<open>
  C7: whenever a request is answered (the first, or the retry), the client
  sleeps for its configured interval right after it and sends nothing more,
  whether or not the text can then be read. Hence, of two consecutive calls
  that return text through the same client, every request of the second is
  sent at least the interval after the last request of the first, on the
  clock that counts sleeping time. A client built without an interval has
  the interval 40.
\<close>

theorem pause_after_success:
  "(svc (requests tr) prompt = Returned resp \<and> 0 \<le> request_interval self
    \<longrightarrow> (\<exists>rest. snd (generate_content self svc prompt tr) =
            tr @ [Log INFO ''Sending prompt to the generative model.'',
                  Request prompt,
                  Log INFO ''Generated content successfully.'',
                  Sleep (request_interval self)] @ rest
          \<and> requests rest = 0 \<and> elapsed rest = 0))
   \<and> (svc (requests tr) prompt = Raised e
      \<and> (contains ''500'' (str e) \<or> contains ''503'' (str e))
      \<and> svc (Suc (requests tr)) prompt = Returned resp \<and> 0 \<le> request_interval self
    \<longrightarrow> (\<exists>rest. snd (generate_content self svc prompt tr) =
            tr @ [Log INFO ''Sending prompt to the generative model.'',
                  Request prompt,
                  Log WARNING (''Error 500/503 encountered, retrying in 1 minute: '' @ str e),
                  Sleep 60,
                  Request prompt,
                  Log INFO ''Generated content successfully.'',
                  Sleep (request_interval self)] @ rest
          \<and> requests rest = 0 \<and> elapsed rest = 0))
   \<and> (generate_content self svc prompt tr = (Inr (Some t1), tr1)
      \<and> generate_content self svc prompt2 tr1 = (Inr (Some t2), tr2)
    \<longrightarrow> (\<exists>ts. request_times tr2 = request_times tr1 @ ts \<and> ts \<noteq> []
            \<and> (\<forall>t \<in> set ts. last (request_times tr1) + request_interval self \<le> t)))
   \<and> (fst (init key name None tr) = Inr g \<longrightarrow> request_interval g = 40)"
proof (intro conjI impI)
  assume "svc (requests tr) prompt = Returned resp \<and> 0 \<le> request_interval self"
  then show "\<exists>rest. snd (generate_content self svc prompt tr) =
            tr @ [Log INFO ''Sending prompt to the generative model.'',
                  Request prompt,
                  Log INFO ''Generated content successfully.'',
                  Sleep (request_interval self)] @ rest
          \<and> requests rest = 0 \<and> elapsed rest = 0"
    by (auto simp add: generate_content_def model_generate_content_def after_response_def
        sleep_def requests_def Let_def split: outcome.splits sum.splits)
next
  assume "svc (requests tr) prompt = Raised e
      \<and> (contains ''500'' (str e) \<or> contains ''503'' (str e))
      \<and> svc (Suc (requests tr)) prompt = Returned resp \<and> 0 \<le> request_interval self"
  then show "\<exists>rest. snd (generate_content self svc prompt tr) =
            tr @ [Log INFO ''Sending prompt to the generative model.'',
                  Request prompt,
                  Log WARNING (''Error 500/503 encountered, retrying in 1 minute: '' @ str e),
                  Sleep 60,
                  Request prompt,
                  Log INFO ''Generated content successfully.'',
                  Sleep (request_interval self)] @ rest
          \<and> requests rest = 0 \<and> elapsed rest = 0"
    by (auto simp add: generate_content_def model_generate_content_def after_response_def
        sleep_def requests_def Let_def split: outcome.splits sum.splits)
next
  assume two: "generate_content self svc prompt tr = (Inr (Some t1), tr1)
      \<and> generate_content self svc prompt2 tr1 = (Inr (Some t2), tr2)"
  from two request_times_after_success [of self svc prompt tr t1 tr1]
  have first: "last (request_times tr1) + request_interval self = elapsed tr1"
    by simp
  from two request_times_of_success [of self svc prompt2 tr1 t2 tr2]
  show "\<exists>ts. request_times tr2 = request_times tr1 @ ts \<and> ts \<noteq> []
            \<and> (\<forall>t \<in> set ts. last (request_times tr1) + request_interval self \<le> t)"
    by (simp add: first)
next
  assume "fst (init key name None tr) = Inr g"
  then show "request_interval g = 40"
    by (auto simp add: init_def Let_def split: prod.splits sum.splits)
qed

theorem pause_after_success_witness:
  "(\<exists>rest. snd (generate_content sample_generator
                   (scripted [Returned (Response (Inr ''first'')),
                              Returned (Response (Inr ''second''))]) ''p'' []) =
            [Log INFO ''Sending prompt to the generative model.'',
             Request ''p'',
             Log INFO ''Generated content successfully.'',
             Sleep 40] @ rest
          \<and> requests rest = 0 \<and> elapsed rest = 0)
   \<and> (\<exists>rest. snd (generate_content sample_generator
                   (scripted [Raised err_503, Returned (Response (Inr ''first''))]) ''p'' []) =
            [Log INFO ''Sending prompt to the generative model.'',
             Request ''p'',
             Log WARNING
               ''Error 500/503 encountered, retrying in 1 minute: 503 Service Unavailable'',
             Sleep 60,
             Request ''p'',
             Log INFO ''Generated content successfully.'',
             Sleep 40] @ rest
          \<and> requests rest = 0 \<and> elapsed rest = 0)
   \<and> (\<exists>tr1 tr2 ts.
         generate_content sample_generator
           (scripted [Returned (Response (Inr ''first'')),
                      Returned (Response (Inr ''second''))]) ''p'' []
           = (Inr (Some ''first''), tr1)
         \<and> generate_content sample_generator
           (scripted [Returned (Response (Inr ''first'')),
                      Returned (Response (Inr ''second''))]) ''q'' tr1
           = (Inr (Some ''second''), tr2)
         \<and> request_times tr2 = request_times tr1 @ ts \<and> ts \<noteq> []
         \<and> (\<forall>t \<in> set ts. last (request_times tr1) + 40 \<le> t))
   \<and> fst (init (Some ''secret'') None None []) = Inr sample_generator
   \<and> request_interval sample_generator = 40"
proof -
  let ?two = "scripted [Returned (Response (Inr ''first'')),
                        Returned (Response (Inr ''second''))]"
  let ?retry = "scripted [Raised err_503, Returned (Response (Inr ''first''))]"
  let ?tr1 = "[Log INFO ''Sending prompt to the generative model.'',
               Request ''p'',
               Log INFO ''Generated content successfully.'',
               Sleep 40]"
  let ?tr2 = "?tr1 @ [Log INFO ''Sending prompt to the generative model.'',
               Request ''q'',
               Log INFO ''Generated content successfully.'',
               Sleep 40]"
  have r0: "requests [] = 0"
    by (simp add: requests_def)
  have iv: "0 \<le> request_interval sample_generator" "request_interval sample_generator = 40"
    by (simp_all add: sample_generator_def)
  have t503: "contains ''503'' (str err_503)"
    by (simp add: err_503_def)
  have a: "?two (requests []) ''p'' = Returned (Response (Inr ''first''))"
    by (simp add: scripted_def r0)
  have b: "?retry (requests []) ''p'' = Raised err_503
           \<and> ?retry (Suc (requests [])) ''p'' = Returned (Response (Inr ''first''))"
    by (simp add: scripted_def r0)
  have c1: "generate_content sample_generator ?two ''p'' [] = (Inr (Some ''first''), ?tr1)"
    by (simp add: generate_content_def model_generate_content_def after_response_def
        sleep_def requests_def scripted_def sample_generator_def)
  have c2: "generate_content sample_generator ?two ''q'' ?tr1 = (Inr (Some ''second''), ?tr2)"
    by (simp add: generate_content_def model_generate_content_def after_response_def
        sleep_def requests_def scripted_def sample_generator_def)
  have d: "fst (init (Some ''secret'') None None []) = Inr sample_generator"
    by (simp add: init_def configure_model_def sample_generator_def)
  have p1: "\<exists>rest. snd (generate_content sample_generator ?two ''p'' []) = ?tr1 @ rest
              \<and> requests rest = 0 \<and> elapsed rest = 0"
    using pause_after_success
            [of ?two "[]" "''p''" "Response (Inr ''first'')" sample_generator] a iv
    by simp
  have p2: "\<exists>rest. snd (generate_content sample_generator ?retry ''p'' []) =
              [Log INFO ''Sending prompt to the generative model.'',
               Request ''p'',
               Log WARNING
                 ''Error 500/503 encountered, retrying in 1 minute: 503 Service Unavailable'',
               Sleep 60,
               Request ''p'',
               Log INFO ''Generated content successfully.'',
               Sleep 40] @ rest
              \<and> requests rest = 0 \<and> elapsed rest = 0"
    using pause_after_success
            [of ?retry "[]" "''p''" "Response (Inr ''first'')" sample_generator err_503]
          b iv t503
    by (simp add: err_503_def)
  have p3: "\<exists>ts. request_times ?tr2 = request_times ?tr1 @ ts \<and> ts \<noteq> []
              \<and> (\<forall>t \<in> set ts. last (request_times ?tr1) + 40 \<le> t)"
    using pause_after_success
            [where svc = ?two and tr = "[]" and prompt = "''p''" and self = sample_generator
               and ?t1.0 = "''first''" and ?tr1.0 = ?tr1 and ?prompt2.0 = "''q''"
               and ?t2.0 = "''second''" and ?tr2.0 = ?tr2]
          c1 c2 iv
    by simp
  have p4: "request_interval sample_generator = 40"
    using pause_after_success
            [where key = "Some ''secret''" and name = None and tr = "[]"
               and g = sample_generator] d
    by simp
  from p3 c1 c2 have p3': "\<exists>tr1 tr2 ts.
         generate_content sample_generator ?two ''p'' [] = (Inr (Some ''first''), tr1)
         \<and> generate_content sample_generator ?two ''q'' tr1 = (Inr (Some ''second''), tr2)
         \<and> request_times tr2 = request_times tr1 @ ts \<and> ts \<noteq> []
         \<and> (\<forall>t \<in> set ts. last (request_times tr1) + 40 \<le> t)"
    by blast
  from p1 p2 p3' d p4 show ?thesis
    by blast
qed

subsection \<open>C9: the API key\<close>

text \<open>
  C9: constructing a generator with an absent or empty API key raises
  ValueError before the \<open>genai\<close> module is configured: the only event is the
  logged error. With a non-empty key the check passes, and the module is
  configured with that key.
\<close>

theorem api_key_required:
  "(key = None \<or> key = Some [] \<longrightarrow>
      init key name interval tr =
        (Inl (Exception ValueError ''API key is required.''),
         tr @ [Log ERROR ''API key is required for ContentGenerator.'']))
   \<and> (key = Some k \<and> k \<noteq> [] \<longrightarrow>
      (\<exists>self. init key name interval tr =
                 (Inr self, tr @ [Configure k, GenerativeModel (model_name self)])
              \<and> api_key self = Some k))"
  by (auto simp add: init_def configure_model_def Let_def)

theorem api_key_required_witness:
  "init None None None [] =
     (Inl (Exception ValueError ''API key is required.''),
      [Log ERROR ''API key is required for ContentGenerator.''])
   \<and> init (Some []) None None [] =
     (Inl (Exception ValueError ''API key is required.''),
      [Log ERROR ''API key is required for ContentGenerator.''])
   \<and> (\<exists>self. init (Some ''secret'') None None [] =
                (Inr self, [Configure ''secret'', GenerativeModel (model_name self)])
             \<and> api_key self = Some ''secret'')"
  using api_key_required [of None None None "[]"]
        api_key_required [of "Some []" None None "[]"]
        api_key_required [of "Some ''secret''" None None "[]" "''secret''"]
  by simp

section \<open>Properties of the pipeline\<close>

lemma run_pipeline_generation_failure:
  assumes "''error'' \<notin> set (map fst stock_data)"
    and "generate_content (generator self) svc (make_prompt stock_data)
           (trace (logger INFO ''Creating prompt for generative model.''
              (progress cb 1 3 (logger INFO ''Starting stock analysis pipeline...'' w0))))
         = (Inr None, tr)"
  shows "fst (run_pipeline svc self stock_data cb w0) =
           Inl (Exception TypeError ''write() argument must be str, not None'')
         \<and> files (snd (run_pipeline svc self stock_data cb w0))
             (pipeline_stock self @ ''_analysis.md'') = Some []"
  using assms
  by (simp add: run_pipeline_def Let_def file_write_def file_open_def progress_def logger_def)

text \<open>A run in which the text is generated: the report is written.\<close>

lemma run_pipeline_success:
  "run_pipeline (scripted [Returned (Response (Inr ''report''))]) sample_pipeline
       sample_stock_data True fresh_world =
     (Inr (),
      \<lparr> trace =
          [Log INFO ''Starting stock analysis pipeline...'',
           Progress 1 3,
           Log INFO ''Creating prompt for generative model.'',
           Log INFO ''Sending prompt to the generative model.'',
           Request (make_prompt sample_stock_data),
           Log INFO ''Generated content successfully.'',
           Sleep 40,
           Progress 2 3,
           Progress 3 3,
           Log INFO ''Analysis successfully generated.''],
        files = [''RELIANCE_analysis.md'' \<mapsto> ''report''] \<rparr>)"
  by (simp add: run_pipeline_def Let_def file_write_def file_open_def progress_def logger_def
      generate_content_def model_generate_content_def after_response_def sleep_def
      requests_def scripted_def
      sample_pipeline_def sample_generator_def sample_stock_data_def fresh_world_def)

subsection \<open>C6: a run whose generation step fails\<close>

text \<open>
  C6 says that a run whose generation step fails stops, reports, and creates
  no report file. Here the service answers 404, so \<open>generate_content\<close>
  returns \<open>None\<close>. The run goes on to line 66 and opens the report file for
  writing, which creates it empty; \<open>f.write(None)\<close> on line 67 then raises
  TypeError, which leaves \<open>run_pipeline\<close>. The error report of line 75 is
  never logged.
\<close>

theorem run_pipeline_failed_generation:
  "fst (run_pipeline (scripted [Raised err_404]) sample_pipeline sample_stock_data False
          fresh_world)
     = Inl (Exception TypeError ''write() argument must be str, not None'')
   \<and> files (snd (run_pipeline (scripted [Raised err_404]) sample_pipeline sample_stock_data
                   False fresh_world)) ''RELIANCE_analysis.md'' = Some []
   \<and> trace (snd (run_pipeline (scripted [Raised err_404]) sample_pipeline sample_stock_data
                   False fresh_world)) =
       [Log INFO ''Starting stock analysis pipeline...'',
        Log INFO ''Creating prompt for generative model.'',
        Log INFO ''Sending prompt to the generative model.'',
        Request (make_prompt sample_stock_data),
        Log ERROR ''Error generating content: 404 Not Found'']"
  by (simp add: run_pipeline_def Let_def file_write_def file_open_def progress_def logger_def
      generate_content_def model_generate_content_def requests_def scripted_def
      sample_pipeline_def sample_generator_def sample_stock_data_def fresh_world_def
      err_404_def)

end
